theory Spec2Isabelle
  imports Complex_Main "HOL-Library.Char_ord" "HOL-Library.List_Lexorder"
    "HOL-Library.Multiset"
begin

section \<open>Patient records API (src/main.py)\<close>

text \<open>
  A shallow embedding of the FastAPI patient service of \<^verbatim>\<open>src/main.py\<close>.

  \<^item> The file \<^verbatim>\<open>patients.json\<close> is the state: \<^verbatim>\<open>load_data\<close> reads the whole mapping
    and \<^verbatim>\<open>save_data\<close> writes the whole mapping, so a handler that mutates is a function
    from the store to a result and the store it leaves behind.
  \<^item> Python dictionaries keep insertion order and \<^verbatim>\<open>sorted(data.values(), ...)\<close> depends on
    it, so a dictionary is an association list (keys distinct).
  \<^item> Every \<^verbatim>\<open>raise\<close> is the \<open>Inl\<close> branch of a sum.
  \<^item> A Python \<^verbatim>\<open>float\<close> is modelled by the rational number it denotes and float arithmetic
    by exact arithmetic: binary64 rounding, overflow, infinities and NaN are outside the
    model.
  \<^item> Field values are JSON scalars.
\<close>

subsection \<open>JSON values and dictionaries\<close>

datatype jval = JNull | JBool bool | JInt int | JFloat rat | JStr string

type_synonym 'v dict = "(string \<times> 'v) list"
type_synonym jdict = "jval dict"
type_synonym store = "jdict dict"

text \<open>\<^verbatim>\<open>d.get(k)\<close> / \<^verbatim>\<open>d[k]\<close>: the value under the first (only) occurrence of the key.\<close>

fun dict_get :: "'v dict \<Rightarrow> string \<Rightarrow> 'v option" where
  "dict_get [] k = None"
| "dict_get ((k', v) # d) k = (if k' = k then Some v else dict_get d k)"

text \<open>\<^verbatim>\<open>k in d\<close>\<close>

definition dict_in :: "string \<Rightarrow> 'v dict \<Rightarrow> bool" where
  "dict_in k d = (dict_get d k \<noteq> None)"

text \<open>\<^verbatim>\<open>d[k] = v\<close>: an existing key keeps its position, a new key goes to the end.\<close>

fun dict_set :: "'v dict \<Rightarrow> string \<Rightarrow> 'v \<Rightarrow> 'v dict" where
  "dict_set [] k v = [(k, v)]"
| "dict_set ((k', v') # d) k v = (if k' = k then (k, v) # d else (k', v') # dict_set d k v)"

text \<open>\<^verbatim>\<open>del d[k]\<close> (the handler has checked that the key is there).\<close>

fun dict_del :: "'v dict \<Rightarrow> string \<Rightarrow> 'v dict" where
  "dict_del [] k = []"
| "dict_del ((k', v') # d) k = (if k' = k then d else (k', v') # dict_del d k)"

text \<open>\<^verbatim>\<open>{**a, **b}\<close>: the items of \<open>a\<close>, then each item of \<open>b\<close> assigned in turn.\<close>

fun dict_merge :: "'v dict \<Rightarrow> 'v dict \<Rightarrow> 'v dict" where
  "dict_merge a [] = a"
| "dict_merge a ((k, v) # b) = dict_merge (dict_set a k v) b"

definition dict_values :: "'v dict \<Rightarrow> 'v list" where
  "dict_values d = map snd d"

definition dict_keys :: "'v dict \<Rightarrow> string list" where
  "dict_keys d = map fst d"

subsection \<open>Errors\<close>

text \<open>
  The kind of a pydantic error, one per failing field: a field reports its first failure
  (a value of the wrong type is not checked against the bounds).
\<close>

datatype verr = Missing | String_type | Int_type | Float_type
  | Greater_than | Less_than | Literal_error

datatype error =
    HTTPException nat string
  | ValidationError "(string \<times> verr) list"
  | ZeroDivisionError
  | TypeError

subsection \<open>The Patient model\<close>

record Patient =
  id' :: string
  name :: string
  city :: string
  age :: int
  gender :: string
  height :: rat
  weight :: rat

text \<open>Python's \<^verbatim>\<open>round(x, n)\<close> on a float: to the nearest multiple of \<open>10^-n\<close>, a tie to the
  even one.\<close>

definition round_half_even :: "rat \<Rightarrow> int" where
  "round_half_even x =
     (let f = \<lfloor>x\<rfloor>; d = x - of_int f
      in if d < 1 / 2 then f
         else if 1 / 2 < d then f + 1
         else if even f then f else f + 1)"

definition py_round :: "rat \<Rightarrow> nat \<Rightarrow> rat" where
  "py_round x n = of_int (round_half_even (x * 10 ^ n)) / 10 ^ n"

text \<open>\<^verbatim>\<open>round(self.weight / (self.height ** 2), 2)\<close>; a float division by zero raises.\<close>

definition bmi :: "Patient \<Rightarrow> error + rat" where
  "bmi self =
     (if (height self)\<^sup>2 = 0 then Inl ZeroDivisionError
      else Inr (py_round (weight self / (height self)\<^sup>2) 2))"

definition verdict :: "Patient \<Rightarrow> error + string" where
  "verdict self =
     (case bmi self of
        Inl e \<Rightarrow> Inl e
      | Inr b \<Rightarrow>
          Inr (if b < 18.5 then ''Underweight''
               else if b < 25 then ''Normal''
               else if b < 30 then ''Overweight''
               else ''Obese''))"

text \<open>
  \<^verbatim>\<open>model_dump\<close> serialises the declared fields in declaration order and then the
  \<^verbatim>\<open>@computed_field\<close> properties, so \<open>bmi\<close> and \<open>verdict\<close> are keys of every dump.
\<close>

definition model_dump_all :: "Patient \<Rightarrow> error + jdict" where
  "model_dump_all self =
     (case bmi self of
        Inl e \<Rightarrow> Inl e
      | Inr b \<Rightarrow>
          (case verdict self of
             Inl e \<Rightarrow> Inl e
           | Inr v \<Rightarrow>
               Inr [(''id'', JStr (id' self)),
                    (''name'', JStr (name self)),
                    (''city'', JStr (city self)),
                    (''age'', JInt (age self)),
                    (''gender'', JStr (gender self)),
                    (''height'', JFloat (height self)),
                    (''weight'', JFloat (weight self)),
                    (''bmi'', JFloat b),
                    (''verdict'', JStr v)]))"

text \<open>
  The \<^verbatim>\<open>exclude\<close> argument. The serialiser leaves a field out when \<^verbatim>\<open>key in exclude\<close>
  holds: membership for the list \<^verbatim>\<open>['id']\<close> of \<^verbatim>\<open>create_patient\<close>, the substring test for
  the string \<^verbatim>\<open>'id'\<close> of \<^verbatim>\<open>update_patient\<close>.
\<close>

datatype exclude = ExNone | ExList "string list" | ExStr string

definition str_contains :: "string \<Rightarrow> string \<Rightarrow> bool" where
  "str_contains s k = list_ex (\<lambda>i. take (length k) (drop i s) = k) [0 ..< Suc (length s)]"

fun excluded :: "exclude \<Rightarrow> string \<Rightarrow> bool" where
  "excluded ExNone k = False"
| "excluded (ExList ks) k = (k \<in> set ks)"
| "excluded (ExStr s) k = str_contains s k"

definition model_dump :: "exclude \<Rightarrow> Patient \<Rightarrow> error + jdict" where
  "model_dump ex self =
     (case model_dump_all self of
        Inl e \<Rightarrow> Inl e
      | Inr d \<Rightarrow> Inr (filter (\<lambda>kv. \<not> excluded ex (fst kv)) d))"

subsection \<open>Validation\<close>

text \<open>
  pydantic validates in lax mode: a value that is not of the field's type may still be
  converted (a numeric string, an integral float, a bool). Which values convert is the
  library's business; the two conversions are parameters of the model.
\<close>

record lax =
  lax_int :: "jval \<Rightarrow> int option"
  lax_float :: "jval \<Rightarrow> rat option"

fun validate_str :: "jval \<Rightarrow> verr + string" where
  "validate_str (JStr s) = Inr s"
| "validate_str v = Inl String_type"

fun validate_int :: "lax \<Rightarrow> jval \<Rightarrow> verr + int" where
  "validate_int cv (JInt i) = Inr i"
| "validate_int cv JNull = Inl Int_type"
| "validate_int cv v = (case lax_int cv v of Some i \<Rightarrow> Inr i | None \<Rightarrow> Inl Int_type)"

fun validate_float :: "lax \<Rightarrow> jval \<Rightarrow> verr + rat" where
  "validate_float cv (JFloat f) = Inr f"
| "validate_float cv (JInt i) = Inr (of_int i)"
| "validate_float cv JNull = Inl Float_type"
| "validate_float cv v = (case lax_float cv v of Some f \<Rightarrow> Inr f | None \<Rightarrow> Inl Float_type)"

text \<open>\<^verbatim>\<open>Literal['male', 'female', 'others']\<close>\<close>

fun validate_gender :: "jval \<Rightarrow> verr + string" where
  "validate_gender (JStr g) =
     (if g \<in> set [''male'', ''female'', ''others''] then Inr g else Inl Literal_error)"
| "validate_gender v = Inl Literal_error"

text \<open>\<^verbatim>\<open>Field(..., gt=0, lt=120)\<close> and \<^verbatim>\<open>Field(..., gt=0)\<close>; \<open>lt = None\<close> is no upper bound.\<close>

definition bounds :: "'a::linorder \<Rightarrow> 'a option \<Rightarrow> verr + 'a \<Rightarrow> verr + 'a" where
  "bounds gt lt r =
     (case r of
        Inl e \<Rightarrow> Inl e
      | Inr x \<Rightarrow>
          if \<not> gt < x then Inl Greater_than
          else (case lt of
                  None \<Rightarrow> Inr x
                | Some u \<Rightarrow> if \<not> x < u then Inl Less_than else Inr x))"

text \<open>A required field (\<^verbatim>\<open>Field(...)\<close>): an absent key is an error.\<close>

definition required :: "jdict \<Rightarrow> string \<Rightarrow> (jval \<Rightarrow> verr + 'a) \<Rightarrow> verr + 'a" where
  "required kw f val = (case dict_get kw f of None \<Rightarrow> Inl Missing | Some v \<Rightarrow> val v)"

definition err_of :: "string \<Rightarrow> verr + 'a \<Rightarrow> (string \<times> verr) list" where
  "err_of f r = (case r of Inl e \<Rightarrow> [(f, e)] | Inr _ \<Rightarrow> [])"

text \<open>
  \<^verbatim>\<open>Patient(**kw)\<close>: every field is validated, the errors of all failing fields are
  reported together, keys that are not fields (\<open>bmi\<close> and \<open>verdict\<close> of a stored record
  among them) are ignored.
\<close>

fun Patient_build ::
  "verr + string \<Rightarrow> verr + string \<Rightarrow> verr + string \<Rightarrow> verr + int \<Rightarrow> verr + string \<Rightarrow>
   verr + rat \<Rightarrow> verr + rat \<Rightarrow> error + Patient" where
  "Patient_build (Inr i) (Inr n) (Inr c) (Inr a) (Inr g) (Inr h) (Inr w) =
     Inr \<lparr>id' = i, name = n, city = c, age = a, gender = g, height = h, weight = w\<rparr>"
| "Patient_build i n c a g h w =
     Inl (ValidationError
       (err_of ''id'' i @ err_of ''name'' n @ err_of ''city'' c @ err_of ''age'' a @
        err_of ''gender'' g @ err_of ''height'' h @ err_of ''weight'' w))"

definition Patient_validate :: "lax \<Rightarrow> jdict \<Rightarrow> error + Patient" where
  "Patient_validate cv kw =
     Patient_build
       (required kw ''id'' validate_str)
       (required kw ''name'' validate_str)
       (required kw ''city'' validate_str)
       (required kw ''age'' (\<lambda>v. bounds 0 (Some 120) (validate_int cv v)))
       (required kw ''gender'' validate_gender)
       (required kw ''height'' (\<lambda>v. bounds 0 None (validate_float cv v)))
       (required kw ''weight'' (\<lambda>v. bounds 0 None (validate_float cv v)))"

text \<open>Every field of \<open>Patient\<close> that fails on the arguments \<open>kw\<close>, with its failure, in
  declaration order.\<close>

definition field_errors :: "lax \<Rightarrow> jdict \<Rightarrow> (string \<times> verr) list" where
  "field_errors cv kw =
     err_of ''id'' (required kw ''id'' validate_str) @
     err_of ''name'' (required kw ''name'' validate_str) @
     err_of ''city'' (required kw ''city'' validate_str) @
     err_of ''age'' (required kw ''age'' (\<lambda>v. bounds 0 (Some 120) (validate_int cv v))) @
     err_of ''gender'' (required kw ''gender'' validate_gender) @
     err_of ''height'' (required kw ''height'' (\<lambda>v. bounds 0 None (validate_float cv v))) @
     err_of ''weight'' (required kw ''weight'' (\<lambda>v. bounds 0 None (validate_float cv v)))"

text \<open>The constraints a \<open>Patient\<close> object satisfies: what \<open>Patient_validate\<close> checks
  beyond the types.\<close>

definition valid_Patient :: "Patient \<Rightarrow> bool" where
  "valid_Patient p \<longleftrightarrow>
     0 < age p \<and> age p < 120 \<and> gender p \<in> set [''male'', ''female'', ''others'']
     \<and> 0 < height p \<and> 0 < weight p"

subsection \<open>The PatientUpdate model\<close>

text \<open>
  Every field is \<^verbatim>\<open>Optional\<close> with default \<^verbatim>\<open>None\<close>. pydantic remembers which fields the
  caller supplied: \<open>None\<close> is a field that was not supplied, \<open>Some None\<close> one supplied as
  \<^verbatim>\<open>null\<close>, \<open>Some (Some x)\<close> one supplied with a value.
\<close>

record PatientUpdate =
  name_upd :: "string option option"
  city_upd :: "string option option"
  age_upd :: "int option option"
  gender_upd :: "string option option"
  height_upd :: "rat option option"
  weight_upd :: "rat option option"

definition optional ::
  "jdict \<Rightarrow> string \<Rightarrow> (jval \<Rightarrow> verr + 'a) \<Rightarrow> verr + 'a option option" where
  "optional kw f val =
     (case dict_get kw f of
        None \<Rightarrow> Inr None
      | Some JNull \<Rightarrow> Inr (Some None)
      | Some v \<Rightarrow> (case val v of Inl e \<Rightarrow> Inl e | Inr x \<Rightarrow> Inr (Some (Some x))))"

fun PatientUpdate_build ::
  "verr + string option option \<Rightarrow> verr + string option option \<Rightarrow> verr + int option option \<Rightarrow>
   verr + string option option \<Rightarrow> verr + rat option option \<Rightarrow> verr + rat option option \<Rightarrow>
   error + PatientUpdate" where
  "PatientUpdate_build (Inr n) (Inr c) (Inr a) (Inr g) (Inr h) (Inr w) =
     Inr \<lparr>name_upd = n, city_upd = c, age_upd = a, gender_upd = g,
          height_upd = h, weight_upd = w\<rparr>"
| "PatientUpdate_build n c a g h w =
     Inl (ValidationError
       (err_of ''name'' n @ err_of ''city'' c @ err_of ''age'' a @
        err_of ''gender'' g @ err_of ''height'' h @ err_of ''weight'' w))"

text \<open>\<^verbatim>\<open>PatientUpdate(**kw)\<close>, as the framework builds it from the request body. The model
  has no \<open>id\<close> field and the age has no upper bound here.\<close>

definition PatientUpdate_validate :: "lax \<Rightarrow> jdict \<Rightarrow> error + PatientUpdate" where
  "PatientUpdate_validate cv kw =
     PatientUpdate_build
       (optional kw ''name'' validate_str)
       (optional kw ''city'' validate_str)
       (optional kw ''age'' (\<lambda>v. bounds 0 None (validate_int cv v)))
       (optional kw ''gender'' validate_gender)
       (optional kw ''height'' (\<lambda>v. bounds 0 None (validate_float cv v)))
       (optional kw ''weight'' (\<lambda>v. bounds 0 None (validate_float cv v)))"

text \<open>A supplied field is dumped with its value, \<^verbatim>\<open>None\<close> as \<^verbatim>\<open>null\<close>; a field that was
  not supplied is left out.\<close>

fun opt_json :: "('a \<Rightarrow> jval) \<Rightarrow> 'a option \<Rightarrow> jval" where
  "opt_json j None = JNull"
| "opt_json j (Some x) = j x"

fun dump_set :: "string \<Rightarrow> ('a \<Rightarrow> jval) \<Rightarrow> 'a option option \<Rightarrow> jdict" where
  "dump_set f j None = []"
| "dump_set f j (Some v) = [(f, opt_json j v)]"

text \<open>\<^verbatim>\<open>patient_update.model_dump(exclude_unset=True)\<close>\<close>

definition model_dump_exclude_unset :: "PatientUpdate \<Rightarrow> jdict" where
  "model_dump_exclude_unset u =
     dump_set ''name'' JStr (name_upd u) @
     dump_set ''city'' JStr (city_upd u) @
     dump_set ''age'' JInt (age_upd u) @
     dump_set ''gender'' JStr (gender_upd u) @
     dump_set ''height'' JFloat (height_upd u) @
     dump_set ''weight'' JFloat (weight_upd u)"

subsection \<open>Routes\<close>

definition not_found :: error where
  "not_found = HTTPException 404 ''Patient not found''"

text \<open>\<^verbatim>\<open>GET /view\<close>\<close>

definition view :: "store \<Rightarrow> store" where
  "view data = data"

text \<open>\<^verbatim>\<open>GET /patient/{patient_id}\<close>\<close>

definition view_patient :: "string \<Rightarrow> store \<Rightarrow> error + jdict" where
  "view_patient patient_id data =
     (case dict_get data patient_id of
        Some v \<Rightarrow> Inr v
      | None \<Rightarrow> Inl not_found)"

text \<open>
  \<^verbatim>\<open>sorted(xs, key=..., reverse=...)\<close>. Numbers (bools among them) compare with numbers
  and strings with strings; any other comparison raises \<^verbatim>\<open>TypeError\<close>, and a list of two
  or more elements is not sorted without comparing. The sort is stable; with
  \<^verbatim>\<open>reverse=True\<close> the list is reversed before and after, which keeps equal keys in their
  original order.
\<close>

fun num_of :: "jval \<Rightarrow> rat option" where
  "num_of (JInt i) = Some (of_int i)"
| "num_of (JFloat f) = Some f"
| "num_of (JBool b) = Some (if b then 1 else 0)"
| "num_of v = None"

fun str_of :: "jval \<Rightarrow> string option" where
  "str_of (JStr s) = Some s"
| "str_of v = None"

definition num_key :: "jval \<Rightarrow> rat" where
  "num_key v = (case num_of v of Some r \<Rightarrow> r | None \<Rightarrow> 0)"

definition str_key :: "jval \<Rightarrow> string" where
  "str_key v = (case str_of v of Some s \<Rightarrow> s | None \<Rightarrow> [])"

definition stable_sort :: "('a \<Rightarrow> 'k::linorder) \<Rightarrow> bool \<Rightarrow> 'a list \<Rightarrow> 'a list" where
  "stable_sort k reverse xs = (if reverse then rev (sort_key k (rev xs)) else sort_key k xs)"

definition py_sorted :: "'a list \<Rightarrow> ('a \<Rightarrow> jval) \<Rightarrow> bool \<Rightarrow> error + 'a list" where
  "py_sorted xs key reverse =
     (if length xs \<le> 1 then Inr xs
      else if list_all (\<lambda>x. num_of (key x) \<noteq> None) xs
        then Inr (stable_sort (\<lambda>x. num_key (key x)) reverse xs)
      else if list_all (\<lambda>x. str_of (key x) \<noteq> None) xs
        then Inr (stable_sort (\<lambda>x. str_key (key x)) reverse xs)
      else Inl TypeError)"

text \<open>\<^verbatim>\<open>x.get(sort_by, 0)\<close>\<close>

definition get_default :: "jdict \<Rightarrow> string \<Rightarrow> jval \<Rightarrow> jval" where
  "get_default x k dflt = (case dict_get x k of Some v \<Rightarrow> v | None \<Rightarrow> dflt)"

definition valid_fields :: "string list" where
  "valid_fields = [''height'', ''weight'', ''bmi'']"

text \<open>\<^verbatim>\<open>GET /sort\<close>\<close>

definition sort_patients :: "string \<Rightarrow> string \<Rightarrow> store \<Rightarrow> error + jdict list" where
  "sort_patients sort_by order data =
     (if sort_by \<notin> set valid_fields
        then Inl (HTTPException 400 ''Invalid field. Choose from ['height', 'weight', 'bmi']'')
      else if order \<notin> set [''asc'', ''desc'']
        then Inl (HTTPException 400 ''Order must be asc or desc'')
      else py_sorted (dict_values data) (\<lambda>x. get_default x sort_by (JInt 0)) (order = ''desc''))"

text \<open>
  \<^verbatim>\<open>POST /create\<close>. The handler receives a \<open>Patient\<close>; the result is the response
  content and the contents of the file afterwards.
\<close>

definition create_patient :: "Patient \<Rightarrow> store \<Rightarrow> (error + jdict) \<times> store" where
  "create_patient patient data =
     (if dict_in (id' patient) data
        then (Inl (HTTPException 400 ''Patient already exists''), data)
      else
        (case model_dump (ExList [''id'']) patient of
           Inl e \<Rightarrow> (Inl e, data)
         | Inr d \<Rightarrow>
             (let data' = dict_set data (id' patient) d
              in case model_dump ExNone patient of
                   Inl e \<Rightarrow> (Inl e, data')
                 | Inr content \<Rightarrow> (Inr content, data'))))"

text \<open>\<^verbatim>\<open>PUT /edit/{patient_id}\<close>\<close>

definition merged_of :: "string \<Rightarrow> jdict \<Rightarrow> PatientUpdate \<Rightarrow> jdict" where
  "merged_of patient_id existing patient_update =
     dict_set (dict_merge existing (model_dump_exclude_unset patient_update))
       ''id'' (JStr patient_id)"

definition update_patient ::
  "lax \<Rightarrow> string \<Rightarrow> PatientUpdate \<Rightarrow> store \<Rightarrow> (error + Patient) \<times> store" where
  "update_patient cv patient_id patient_update data =
     (case dict_get data patient_id of
        None \<Rightarrow> (Inl not_found, data)
      | Some existing \<Rightarrow>
          (case Patient_validate cv (merged_of patient_id existing patient_update) of
             Inl e \<Rightarrow> (Inl e, data)
           | Inr patient_obj \<Rightarrow>
               (case model_dump (ExStr ''id'') patient_obj of
                  Inl e \<Rightarrow> (Inl e, data)
                | Inr d \<Rightarrow> (Inr patient_obj, dict_set data patient_id d))))"

text \<open>The same route from the request body: the framework validates the body as a
  \<open>PatientUpdate\<close> and calls the handler only when that succeeds.\<close>

definition edit_request ::
  "lax \<Rightarrow> string \<Rightarrow> jdict \<Rightarrow> store \<Rightarrow> (error + Patient) \<times> store" where
  "edit_request cv patient_id body data =
     (case PatientUpdate_validate cv body of
        Inl e \<Rightarrow> (Inl e, data)
      | Inr patient_update \<Rightarrow> update_patient cv patient_id patient_update data)"

text \<open>\<^verbatim>\<open>DELETE /delete/{patient_id}\<close>\<close>

definition delete_patient :: "string \<Rightarrow> store \<Rightarrow> (error + jdict) \<times> store" where
  "delete_patient patient_id data =
     (if \<not> dict_in patient_id data then (Inl not_found, data)
      else (Inr [(''message'', JStr ''patient deleted'')], dict_del data patient_id))"

subsection \<open>Persisted records\<close>

text \<open>The value that \<^verbatim>\<open>model_dump\<close> without the \<open>id\<close> produces for a patient, which is
  what \<^verbatim>\<open>create_patient\<close> and \<^verbatim>\<open>update_patient\<close> put into the store.\<close>

definition persisted_as :: "jdict \<Rightarrow> Patient \<Rightarrow> bool" where
  "persisted_as d p =
     (case bmi p of
        Inl e \<Rightarrow> False
      | Inr b \<Rightarrow>
          (case verdict p of
             Inl e \<Rightarrow> False
           | Inr v \<Rightarrow>
               d = [(''name'', JStr (name p)),
                    (''city'', JStr (city p)),
                    (''age'', JInt (age p)),
                    (''gender'', JStr (gender p)),
                    (''height'', JFloat (height p)),
                    (''weight'', JFloat (weight p)),
                    (''bmi'', JFloat b),
                    (''verdict'', JStr v)]))"

subsection \<open>The sort key of the specification\<close>

text \<open>The specification describes a sort by \<open>bmi\<close> whose key is computed from the stored
  height and weight of each record. This is that key, following the specification's
  words; \<^verbatim>\<open>sort_patients\<close> does not use it.\<close>

definition computed_bmi :: "jdict \<Rightarrow> rat" where
  "computed_bmi x =
     py_round (num_key (get_default x ''weight'' (JInt 0)) /
               (num_key (get_default x ''height'' (JInt 0)))\<^sup>2) 2"

subsection \<open>Example data\<close>

definition no_lax :: lax where
  "no_lax = \<lparr>lax_int = (\<lambda>v. None), lax_float = (\<lambda>v. None)\<rparr>"

definition ann :: Patient where
  "ann = \<lparr>id' = ''P001'', name = ''Ann'', city = ''Pune'', age = 30, gender = ''female'',
           height = 1.75, weight = 70\<rparr>"

definition ann_stored :: jdict where
  "ann_stored =
     [(''name'', JStr ''Ann''), (''city'', JStr ''Pune''), (''age'', JInt 30),
      (''gender'', JStr ''female''), (''height'', JFloat 1.75), (''weight'', JFloat 70),
      (''bmi'', JFloat 22.86), (''verdict'', JStr ''Normal'')]"

definition bo_stored :: jdict where
  "bo_stored =
     [(''name'', JStr ''Bo''), (''city'', JStr ''Agra''), (''age'', JInt 52),
      (''gender'', JStr ''male''), (''height'', JFloat 1.6), (''weight'', JFloat 90),
      (''bmi'', JFloat 35.16), (''verdict'', JStr ''Obese'')]"

definition two_patients :: store where
  "two_patients = [(''P001'', ann_stored), (''P002'', bo_stored)]"



definition age_120 :: PatientUpdate where
  "age_120 = \<lparr>name_upd = None, city_upd = None, age_upd = Some (Some 120), gender_upd = None,
               height_upd = None, weight_upd = None\<rparr>"

definition weight_90 :: PatientUpdate where
  "weight_90 = \<lparr>name_upd = None, city_upd = None, age_upd = None, gender_upd = None,
                 height_upd = None, weight_upd = Some (Some 90)\<rparr>"


definition ann_six :: jdict where
  "ann_six =
     [(''name'', JStr ''Ann''), (''city'', JStr ''Pune''), (''age'', JInt 30),
      (''gender'', JStr ''female''), (''height'', JFloat 1.75), (''weight'', JFloat 70)]"

definition bo_six :: jdict where
  "bo_six =
     [(''name'', JStr ''Bo''), (''city'', JStr ''Agra''), (''age'', JInt 52),
      (''gender'', JStr ''male''), (''height'', JFloat 1.6), (''weight'', JFloat 90)]"

definition six_field_store :: store where
  "six_field_store = [(''P002'', bo_six), (''P001'', ann_six)]"

section \<open>Dictionaries\<close>

lemma dict_get_None_iff: "dict_get d k = None \<longleftrightarrow> k \<notin> fst ` set d"
  by (induction d) (auto split: if_splits)

lemma dict_in_keys: "dict_in k d \<longleftrightarrow> k \<in> set (dict_keys d)"
  by (simp add: dict_in_def dict_keys_def dict_get_None_iff)

lemma dict_get_set: "dict_get (dict_set d k v) k' = (if k' = k then Some v else dict_get d k')"
  by (induction d) auto

lemma dict_del_filter:
  "distinct (dict_keys d) \<Longrightarrow> dict_del d k = filter (\<lambda>kv. fst kv \<noteq> k) d"
proof (induction d)
  case Nil
  then show ?case by simp
next
  case (Cons a d)
  obtain k' v' where a: "a = (k', v')" by (cases a)
  show ?case
  proof (cases "k' = k")
    case True
    with Cons.prems a have "k \<notin> fst ` set d" by (simp add: dict_keys_def)
    then have "filter (\<lambda>kv. fst kv \<noteq> k) d = d"
      by (intro filter_True) auto
    with True a show ?thesis by simp
  next
    case False
    with Cons a show ?thesis by (simp add: dict_keys_def)
  qed
qed

lemma dict_get_del_other: "k' \<noteq> k \<Longrightarrow> dict_get (dict_del d k) k' = dict_get d k'"
  by (induction d) auto

lemma dict_get_del_same: "distinct (dict_keys d) \<Longrightarrow> dict_get (dict_del d k) k = None"
  by (auto simp: dict_del_filter dict_get_None_iff)

lemma dict_get_append:
  "dict_get (xs @ ys) k = (case dict_get xs k of Some v \<Rightarrow> Some v | None \<Rightarrow> dict_get ys k)"
  by (induction xs) auto

lemma dict_get_merge:
  "distinct (dict_keys b) \<Longrightarrow>
   dict_get (dict_merge a b) k = (case dict_get b k of Some v \<Rightarrow> Some v | None \<Rightarrow> dict_get a k)"
proof (induction b arbitrary: a)
  case Nil
  then show ?case by simp
next
  case (Cons x b)
  obtain k' v where x: "x = (k', v)" by (cases x)
  from Cons.prems x have d: "distinct (dict_keys b)" and n: "k' \<notin> fst ` set b"
    by (simp_all add: dict_keys_def)
  from n have "dict_get b k' = None" by (simp add: dict_get_None_iff)
  with Cons.IH [OF d, of "dict_set a k' v"] x show ?case
    by (auto simp: dict_get_set split: option.splits)
qed

section \<open>The derived fields\<close>









section \<open>Validation\<close>

lemma Patient_build_Inr:
  "Patient_build i n c a g h w = Inr p \<longleftrightarrow>
     (\<exists>i' n' c' a' g' h' w'. i = Inr i' \<and> n = Inr n' \<and> c = Inr c' \<and> a = Inr a' \<and> g = Inr g'
        \<and> h = Inr h' \<and> w = Inr w'
        \<and> p = \<lparr>id' = i', name = n', city = c', age = a', gender = g', height = h', weight = w'\<rparr>)"
  by (cases i; cases n; cases c; cases a; cases g; cases h; cases w) auto

lemma Patient_build_Inl:
  "Patient_build i n c a g h w = Inl e \<longleftrightarrow>
     e = ValidationError
       (err_of ''id'' i @ err_of ''name'' n @ err_of ''city'' c @ err_of ''age'' a @
        err_of ''gender'' g @ err_of ''height'' h @ err_of ''weight'' w)
     \<and> err_of ''id'' i @ err_of ''name'' n @ err_of ''city'' c @ err_of ''age'' a @
        err_of ''gender'' g @ err_of ''height'' h @ err_of ''weight'' w \<noteq> []"
  by (cases i; cases n; cases c; cases a; cases g; cases h; cases w) (auto simp: err_of_def)

lemma Patient_validate_Inl:
  "Patient_validate cv kw = Inl e \<longleftrightarrow>
     e = ValidationError (field_errors cv kw) \<and> field_errors cv kw \<noteq> []"
  unfolding Patient_validate_def field_errors_def by (rule Patient_build_Inl)


lemma bounds_Inr:
  "bounds lo hi r = Inr x \<longleftrightarrow> r = Inr x \<and> lo < x \<and> (\<forall>u. hi = Some u \<longrightarrow> x < u)"
  by (cases r; cases hi) (auto simp: bounds_def)

lemma validate_gender_Inr:
  "validate_gender v = Inr g \<longleftrightarrow> v = JStr g \<and> g \<in> set [''male'', ''female'', ''others'']"
  by (cases v) auto

lemma required_Inr:
  "required kw f val = Inr x \<longleftrightarrow> (\<exists>v. dict_get kw f = Some v \<and> val v = Inr x)"
  by (simp add: required_def split: option.splits)

lemma Patient_validate_valid:
  assumes "Patient_validate cv kw = Inr p"
  shows "valid_Patient p"
  using assms unfolding Patient_validate_def Patient_build_Inr
  by (auto simp: valid_Patient_def required_Inr bounds_Inr validate_gender_Inr)

lemma in_err_of: "(f, e) \<in> set (err_of f' r) \<longleftrightarrow> f = f' \<and> r = Inl e"
  by (cases r) (auto simp: err_of_def)

lemma in_field_errors:
  "(f, e) \<in> set (field_errors cv kw) \<longleftrightarrow>
     (f = ''id'' \<and> required kw ''id'' validate_str = Inl e)
   \<or> (f = ''name'' \<and> required kw ''name'' validate_str = Inl e)
   \<or> (f = ''city'' \<and> required kw ''city'' validate_str = Inl e)
   \<or> (f = ''age'' \<and> required kw ''age'' (\<lambda>v. bounds 0 (Some 120) (validate_int cv v)) = Inl e)
   \<or> (f = ''gender'' \<and> required kw ''gender'' validate_gender = Inl e)
   \<or> (f = ''height'' \<and> required kw ''height'' (\<lambda>v. bounds 0 None (validate_float cv v)) = Inl e)
   \<or> (f = ''weight'' \<and> required kw ''weight'' (\<lambda>v. bounds 0 None (validate_float cv v)) = Inl e)"
  unfolding field_errors_def set_append Un_iff in_err_of by (rule refl)


lemma PatientUpdate_build_Inl:
  "PatientUpdate_build n c a g h w = Inl e \<Longrightarrow> \<exists>errs. e = ValidationError errs \<and> errs \<noteq> []"
  by (cases n; cases c; cases a; cases g; cases h; cases w) (auto simp: err_of_def)




section \<open>What is persisted\<close>

lemma str_contains_id:
  "str_contains ''id'' ''id''" "\<not> str_contains ''id'' ''name''" "\<not> str_contains ''id'' ''city''"
  "\<not> str_contains ''id'' ''age''" "\<not> str_contains ''id'' ''gender''"
  "\<not> str_contains ''id'' ''height''" "\<not> str_contains ''id'' ''weight''"
  "\<not> str_contains ''id'' ''bmi''" "\<not> str_contains ''id'' ''verdict''"
  by (simp_all add: str_contains_def)

lemma verdict_Inr: "bmi p = Inr b \<Longrightarrow> \<exists>v. verdict p = Inr v"
  by (simp add: verdict_def)

lemma verdict_Inl: "bmi p = Inl e \<Longrightarrow> verdict p = Inl e"
  by (simp add: verdict_def)

lemma model_dump_ExList_id: "model_dump (ExList [''id'']) p = Inr d \<longleftrightarrow> persisted_as d p"
  by (cases "bmi p"; cases "verdict p")
    (auto simp: model_dump_def model_dump_all_def persisted_as_def verdict_Inl)

lemma model_dump_ExStr_id: "model_dump (ExStr ''id'') p = Inr d \<longleftrightarrow> persisted_as d p"
  by (cases "bmi p"; cases "verdict p")
    (auto simp: model_dump_def model_dump_all_def persisted_as_def str_contains_id verdict_Inl)

lemma model_dump_all_Inr:
  "model_dump ExNone p = Inr d \<longleftrightarrow> (\<exists>d'. persisted_as d' p \<and> d = (''id'', JStr (id' p)) # d')"
  by (cases "bmi p"; cases "verdict p")
    (auto simp: model_dump_def model_dump_all_def persisted_as_def verdict_Inl)

lemma create_patient_Inr:
  assumes "create_patient p data = (Inr r, data')"
  shows "\<exists>d. persisted_as d p \<and> data' = dict_set data (id' p) d \<and> r = (''id'', JStr (id' p)) # d
     \<and> \<not> dict_in (id' p) data"
proof -
  from assms have n: "\<not> dict_in (id' p) data"
    by (auto simp: create_patient_def split: if_splits)
  from assms n obtain d where d: "model_dump (ExList [''id'']) p = Inr d"
    by (cases "model_dump (ExList [''id'']) p") (auto simp: create_patient_def)
  then have pd: "persisted_as d p" by (simp add: model_dump_ExList_id)
  from assms n d obtain c where c: "model_dump ExNone p = Inr c"
    by (cases "model_dump ExNone p") (auto simp: create_patient_def Let_def)
  with assms n d have "data' = dict_set data (id' p) d" "r = c"
    by (auto simp: create_patient_def Let_def)
  moreover from c obtain d' where "persisted_as d' p" "c = (''id'', JStr (id' p)) # d'"
    by (auto simp: model_dump_all_Inr)
  moreover with pd have "d' = d"
    by (auto simp: persisted_as_def split: sum.splits)
  ultimately show ?thesis using pd n by auto
qed

lemma update_patient_Inr:
  assumes "update_patient cv pid u data = (Inr p', data')"
  shows "\<exists>existing d. dict_get data pid = Some existing
     \<and> Patient_validate cv (merged_of pid existing u) = Inr p'
     \<and> persisted_as d p' \<and> data' = dict_set data pid d"
proof -
  from assms obtain existing where e: "dict_get data pid = Some existing"
    by (cases "dict_get data pid") (auto simp: update_patient_def)
  from assms e have v: "Patient_validate cv (merged_of pid existing u) = Inr p'"
    by (cases "Patient_validate cv (merged_of pid existing u)")
      (auto simp: update_patient_def split: sum.splits)
  from assms e v obtain d where d: "model_dump (ExStr ''id'') p' = Inr d"
    and "data' = dict_set data pid d"
    by (cases "model_dump (ExStr ''id'') p'") (auto simp: update_patient_def)
  with e v show ?thesis by (auto simp: model_dump_ExStr_id)
qed

lemma persisted_as_fields:
  assumes "persisted_as d q"
  shows "dict_keys d = [''name'', ''city'', ''age'', ''gender'', ''height'', ''weight'',
                        ''bmi'', ''verdict'']
    \<and> dict_get d ''id'' = None
    \<and> dict_get d ''name'' = Some (JStr (name q))
    \<and> dict_get d ''city'' = Some (JStr (city q))
    \<and> dict_get d ''age'' = Some (JInt (age q))
    \<and> dict_get d ''gender'' = Some (JStr (gender q))
    \<and> dict_get d ''height'' = Some (JFloat (height q))
    \<and> dict_get d ''weight'' = Some (JFloat (weight q))
    \<and> (\<exists>b v. bmi q = Inr b \<and> verdict q = Inr v
          \<and> dict_get d ''bmi'' = Some (JFloat b) \<and> dict_get d ''verdict'' = Some (JStr v))"
  using assms
  by (cases "bmi q"; cases "verdict q") (simp_all add: persisted_as_def dict_keys_def)

lemma create_ann:
  "create_patient ann [] = (Inr ((''id'', JStr ''P001'') # ann_stored), [(''P001'', ann_stored)])"
  by code_simp


text \<open>
  Claim C1, as the handlers behave. After a successful create or update the value stored
  under the patient id has the keys \<open>name\<close>, \<open>city\<close>, \<open>age\<close>, \<open>gender\<close>, \<open>height\<close>,
  \<open>weight\<close>, \<open>bmi\<close> and \<open>verdict\<close>, and no \<open>id\<close>: the two derived fields are persisted,
  with the values computed from the height and the weight persisted beside them. Reading a
  record returns what is persisted.
\<close>

theorem persisted_value_has_derived_fields:
  "(\<forall>r data'. create_patient p data = (Inr r, data') \<longrightarrow>
       (\<exists>d. dict_get data' (id' p) = Some d \<and> persisted_as d p))
   \<and> (\<forall>p' data'. update_patient cv pid u data = (Inr p', data') \<longrightarrow>
       (\<exists>d. dict_get data' pid = Some d \<and> persisted_as d p'))
   \<and> (\<forall>d q. persisted_as d q \<longrightarrow>
         dict_keys d = [''name'', ''city'', ''age'', ''gender'', ''height'', ''weight'',
                        ''bmi'', ''verdict'']
         \<and> dict_get d ''id'' = None
         \<and> dict_get d ''height'' = Some (JFloat (height q))
         \<and> dict_get d ''weight'' = Some (JFloat (weight q))
         \<and> (\<exists>b v. bmi q = Inr b \<and> verdict q = Inr v
               \<and> dict_get d ''bmi'' = Some (JFloat b) \<and> dict_get d ''verdict'' = Some (JStr v)))
   \<and> (\<forall>v. dict_get data pid = Some v \<longrightarrow> view_patient pid data = Inr v)"
proof -
  have c: "\<forall>r data'. create_patient p data = (Inr r, data') \<longrightarrow>
       (\<exists>d. dict_get data' (id' p) = Some d \<and> persisted_as d p)"
    using create_patient_Inr [of p data] by (fastforce simp: dict_get_set)
  have u: "\<forall>p' data'. update_patient cv pid u data = (Inr p', data') \<longrightarrow>
       (\<exists>d. dict_get data' pid = Some d \<and> persisted_as d p')"
    using update_patient_Inr [of cv pid u data] by (fastforce simp: dict_get_set)
  have f: "\<forall>d q. persisted_as d q \<longrightarrow>
         dict_keys d = [''name'', ''city'', ''age'', ''gender'', ''height'', ''weight'',
                        ''bmi'', ''verdict'']
         \<and> dict_get d ''id'' = None
         \<and> dict_get d ''height'' = Some (JFloat (height q))
         \<and> dict_get d ''weight'' = Some (JFloat (weight q))
         \<and> (\<exists>b v. bmi q = Inr b \<and> verdict q = Inr v
               \<and> dict_get d ''bmi'' = Some (JFloat b) \<and> dict_get d ''verdict'' = Some (JStr v))"
    using persisted_as_fields by blast
  have v: "\<forall>v. dict_get data pid = Some v \<longrightarrow> view_patient pid data = Inr v"
    by (simp add: view_patient_def)
  from c u f v show ?thesis by (intro conjI)
qed

theorem persisted_value_has_derived_fields_witness:
  "create_patient ann [] = (Inr ((''id'', JStr ''P001'') # ann_stored), [(''P001'', ann_stored)])
   \<and> persisted_as ann_stored ann
   \<and> dict_keys ann_stored = [''name'', ''city'', ''age'', ''gender'', ''height'', ''weight'',
                              ''bmi'', ''verdict'']
   \<and> dict_get two_patients ''P001'' = Some ann_stored
   \<and> view_patient ''P001'' two_patients = Inr ann_stored"
proof -
  note t = persisted_value_has_derived_fields [of ann "[]" no_lax "''P001''" weight_90]
  from t create_ann have "\<exists>d. dict_get [(''P001'', ann_stored)] (id' ann) = Some d \<and> persisted_as d ann"
    by blast
  then have p: "persisted_as ann_stored ann" by (simp add: ann_def)
  with t have k: "dict_keys ann_stored = [''name'', ''city'', ''age'', ''gender'', ''height'',
      ''weight'', ''bmi'', ''verdict'']"
    by blast
  have g: "dict_get two_patients ''P001'' = Some ann_stored" by (simp add: two_patients_def)
  with persisted_value_has_derived_fields [of ann two_patients no_lax "''P001''" weight_90]
  have v: "view_patient ''P001'' two_patients = Inr ann_stored" by blast
  from create_ann p k g v show ?thesis by simp
qed

text \<open>
  Claim C1 as the specification words it fails: the value that creating a patient leaves
  in the store holds \<open>bmi\<close> and \<open>verdict\<close>.
\<close>

theorem create_persists_bmi_counterexample:
  "create_patient ann [] = (Inr ((''id'', JStr ''P001'') # ann_stored), [(''P001'', ann_stored)])
   \<and> dict_get ann_stored ''bmi'' = Some (JFloat 22.86)
   \<and> dict_get ann_stored ''verdict'' = Some (JStr ''Normal'')"
  using create_ann by (simp add: ann_stored_def)

section \<open>Reading one record\<close>

text \<open>
  Claim C3, as the handler behaves. \<^verbatim>\<open>view_patient\<close> returns \<^verbatim>\<open>data[patient_id]\<close>: for an
  id in the store the response is the stored value itself, with nothing added to it, and
  for an id that is not in the store the handler raises the 404 \<open>Patient not found\<close>.
\<close>

theorem view_patient_stored_value:
  "(\<forall>v. dict_get data patient_id = Some v \<longrightarrow> view_patient patient_id data = Inr v)
   \<and> (\<not> dict_in patient_id data \<longrightarrow>
        view_patient patient_id data = Inl (HTTPException 404 ''Patient not found''))"
  by (simp add: view_patient_def dict_in_def not_found_def)

theorem view_patient_stored_value_witness:
  "dict_get two_patients ''P002'' = Some bo_stored
   \<and> view_patient ''P002'' two_patients = Inr bo_stored
   \<and> \<not> dict_in ''P003'' two_patients
   \<and> view_patient ''P003'' two_patients = Inl (HTTPException 404 ''Patient not found'')"
  using view_patient_stored_value [of two_patients "''P002''"]
    view_patient_stored_value [of two_patients "''P003''"]
  by (simp add: two_patients_def dict_in_def)

text \<open>
  Claim C3 as the specification words it fails: the record returned for \<open>P001\<close> has no
  \<open>id\<close> field, the key is not put back into the response.
\<close>

theorem view_patient_no_id_counterexample:
  "view_patient ''P001'' two_patients = Inr ann_stored \<and> dict_get ann_stored ''id'' = None"
  by (simp add: view_patient_def two_patients_def ann_stored_def)

section \<open>Sorting\<close>

lemma mset_stable_sort: "mset (stable_sort k r xs) = mset xs"
  by (simp add: stable_sort_def)

lemma sorted_stable_sort:
  "(\<not> r \<longrightarrow> sorted (map k (stable_sort k r xs)))
   \<and> (r \<longrightarrow> sorted (rev (map k (stable_sort k r xs))))"
  by (simp add: stable_sort_def rev_map)

lemma filter_stable_sort:
  "filter (\<lambda>y. k y = c) (stable_sort k r xs) = filter (\<lambda>y. k y = c) xs"
  by (simp add: stable_sort_def sort_key_stable rev_filter [symmetric])

lemma sorted_short: "length xs \<le> 1 \<Longrightarrow> sorted xs"
  by (cases xs) auto

lemma sort_two_patients_desc:
  "sort_patients ''bmi'' ''desc'' two_patients = Inr [bo_stored, ann_stored]"
  by code_simp

lemma sort_six_field_store:
  "sort_patients ''bmi'' ''asc'' six_field_store = Inr [bo_six, ann_six]"
  by code_simp

text \<open>
  Claim C2, as the handler behaves. For a valid field, \<open>bmi\<close> in particular, and a valid
  order, with numeric keys, \<^verbatim>\<open>sort_patients\<close> returns the stored records, all of them and
  nothing else, ascending or descending by the value persisted under the field, records
  of equal key in store order. The key of a record is the value stored under the field
  and 0 when the record has no such field; nothing is computed from height and weight.
  For a record as create or update persist it, the persisted \<open>bmi\<close> is the one computed
  when it was written.
\<close>

theorem sort_patients_by_persisted_key:
  assumes "sort_by \<in> set valid_fields"
    and "order \<in> set [''asc'', ''desc'']"
    and "\<forall>x \<in> set (dict_values data). num_of (get_default x sort_by (JInt 0)) \<noteq> None"
  shows "(\<exists>rs. sort_patients sort_by order data = Inr rs
      \<and> mset rs = mset (dict_values data)
      \<and> (order = ''asc'' \<longrightarrow>
           sorted (map (\<lambda>x. num_key (get_default x sort_by (JInt 0))) rs))
      \<and> (order = ''desc'' \<longrightarrow>
           sorted (rev (map (\<lambda>x. num_key (get_default x sort_by (JInt 0))) rs)))
      \<and> (\<forall>c. filter (\<lambda>x. num_key (get_default x sort_by (JInt 0)) = c) rs
              = filter (\<lambda>x. num_key (get_default x sort_by (JInt 0)) = c) (dict_values data)))
    \<and> (\<forall>x. dict_get x sort_by = None \<longrightarrow> num_key (get_default x sort_by (JInt 0)) = 0)
    \<and> (\<forall>x v. dict_get x sort_by = Some v \<longrightarrow>
          num_key (get_default x sort_by (JInt 0)) = num_key v)
    \<and> (\<forall>x p b. persisted_as x p \<and> bmi p = Inr b \<longrightarrow>
          num_key (get_default x ''bmi'' (JInt 0)) = b)"
proof -
  let ?xs = "dict_values data"
  let ?k = "\<lambda>x. num_key (get_default x sort_by (JInt 0))"
  let ?r = "order = ''desc''"
  from assms(2) have o: "order = ''asc'' \<longleftrightarrow> \<not> ?r" by auto
  have s: "sort_patients sort_by order data
      = py_sorted ?xs (\<lambda>x. get_default x sort_by (JInt 0)) ?r"
    using assms(1,2) by (simp add: sort_patients_def)
  have sorted_part: "\<exists>rs. sort_patients sort_by order data = Inr rs
      \<and> mset rs = mset ?xs
      \<and> (order = ''asc'' \<longrightarrow> sorted (map ?k rs))
      \<and> (order = ''desc'' \<longrightarrow> sorted (rev (map ?k rs)))
      \<and> (\<forall>c. filter (\<lambda>x. ?k x = c) rs = filter (\<lambda>x. ?k x = c) ?xs)"
  proof (cases "length ?xs \<le> 1")
    case True
    then have "sort_patients sort_by order data = Inr ?xs"
      by (simp add: s py_sorted_def)
    moreover from True have "sorted (map ?k ?xs)" "sorted (rev (map ?k ?xs))"
      by (simp_all add: sorted_short)
    ultimately show ?thesis by simp
  next
    case False
    from assms(3) have "list_all (\<lambda>x. num_of (get_default x sort_by (JInt 0)) \<noteq> None) ?xs"
      by (simp add: list_all_iff)
    with False have "sort_patients sort_by order data = Inr (stable_sort ?k ?r ?xs)"
      by (simp add: s py_sorted_def)
    with sorted_stable_sort [of ?r ?k ?xs] show ?thesis
      by (simp add: o mset_stable_sort filter_stable_sort)
  qed
  have dflt: "\<forall>x. dict_get x sort_by = None \<longrightarrow> ?k x = 0"
    by (simp add: get_default_def num_key_def)
  have stored: "\<forall>x v. dict_get x sort_by = Some v \<longrightarrow> ?k x = num_key v"
    by (simp add: get_default_def)
  have written: "\<forall>x p b. persisted_as x p \<and> bmi p = Inr b \<longrightarrow>
      num_key (get_default x ''bmi'' (JInt 0)) = b"
    using persisted_as_fields by (fastforce simp: get_default_def num_key_def)
  from sorted_part dflt stored written show ?thesis by (intro conjI)
qed

theorem sort_patients_by_persisted_key_witness:
  "''bmi'' \<in> set valid_fields \<and> ''desc'' \<in> set [''asc'', ''desc'']
   \<and> list_all (\<lambda>x. num_of (get_default x ''bmi'' (JInt 0)) \<noteq> None) (dict_values two_patients)
   \<and> sort_patients ''bmi'' ''desc'' two_patients = Inr [bo_stored, ann_stored]
   \<and> mset [bo_stored, ann_stored] = mset (dict_values two_patients)
   \<and> sorted (rev (map (\<lambda>x. num_key (get_default x ''bmi'' (JInt 0))) [bo_stored, ann_stored]))
   \<and> dict_get bo_six ''bmi'' = None
   \<and> num_key (get_default bo_six ''bmi'' (JInt 0)) = 0"
proof -
  have f: "''bmi'' \<in> set valid_fields" by (simp add: valid_fields_def)
  have o: "''desc'' \<in> set [''asc'', ''desc'']" by simp
  have n: "list_all (\<lambda>x. num_of (get_default x ''bmi'' (JInt 0)) \<noteq> None)
      (dict_values two_patients)"
    by code_simp
  then have n': "\<forall>x \<in> set (dict_values two_patients).
      num_of (get_default x ''bmi'' (JInt 0)) \<noteq> None"
    by (simp add: list_all_iff)
  note t = sort_patients_by_persisted_key [OF f o n']
  have m: "dict_get bo_six ''bmi'' = None" by (simp add: bo_six_def)
  from t m have z: "num_key (get_default bo_six ''bmi'' (JInt 0)) = 0" by blast
  from t sort_two_patients_desc
  have "mset [bo_stored, ann_stored] = mset (dict_values two_patients)
     \<and> sorted (rev (map (\<lambda>x. num_key (get_default x ''bmi'' (JInt 0))) [bo_stored, ann_stored]))"
    by auto
  with f o n sort_two_patients_desc m z show ?thesis by simp
qed

text \<open>
  Claim C2 as the specification words it fails. In a store whose records hold the six
  fields only, every key is the fallback 0 and the ascending sort by \<open>bmi\<close> keeps the
  store order, the record of bmi 35.16 before the record of bmi 22.86.
\<close>

theorem sort_not_on_the_fly_counterexample:
  "sort_patients ''bmi'' ''asc'' six_field_store = Inr [bo_six, ann_six]
   \<and> computed_bmi bo_six = 35.16 \<and> computed_bmi ann_six = 22.86"
proof -
  have "computed_bmi bo_six = 35.16" by code_simp
  moreover have "computed_bmi ann_six = 22.86" by code_simp
  ultimately show ?thesis using sort_six_field_store by simp
qed

section \<open>Creating a record\<close>

text \<open>
  Claim C8. When the id of the payload is already a key of the store, \<^verbatim>\<open>create_patient\<close>
  raises the 400 \<open>Patient already exists\<close> and the store, the record under that id
  included, is what it was.
\<close>

theorem create_patient_existing_id:
  assumes "dict_in (id' patient) data"
  shows "create_patient patient data =
    (Inl (HTTPException 400 ''Patient already exists''), data)"
  using assms by (simp add: create_patient_def)

theorem create_patient_existing_id_witness:
  "dict_in (id' ann) two_patients
   \<and> create_patient ann two_patients =
       (Inl (HTTPException 400 ''Patient already exists''), two_patients)"
proof -
  have i: "dict_in (id' ann) two_patients"
    by (simp add: two_patients_def dict_in_def ann_def)
  from create_patient_existing_id [OF i] i show ?thesis by simp
qed

section \<open>Updating a record\<close>

lemma dict_get_dump_set:
  "dict_get (dump_set f j x) k = (if k = f then map_option (opt_json j) x else None)"
  by (cases x) auto

lemma keys_dump_set: "fst ` set (dump_set f j x) \<subseteq> {f}"
  by (cases x) auto

lemma distinct_dump_set: "distinct (map fst (dump_set f j x))"
  by (cases x) auto

lemma distinct_updates: "distinct (dict_keys (model_dump_exclude_unset u))"
proof -
  have k: "x \<in> set (dump_set f j v) \<Longrightarrow> fst x = f" for x f and j :: "'a \<Rightarrow> jval" and v
    using keys_dump_set [of f j v] by auto
  show ?thesis
    unfolding dict_keys_def model_dump_exclude_unset_def
    by (auto simp: distinct_dump_set dest!: k)
qed

lemma get_updates:
  "dict_get (model_dump_exclude_unset u) ''name'' = map_option (opt_json JStr) (name_upd u)"
  "dict_get (model_dump_exclude_unset u) ''city'' = map_option (opt_json JStr) (city_upd u)"
  "dict_get (model_dump_exclude_unset u) ''age'' = map_option (opt_json JInt) (age_upd u)"
  "dict_get (model_dump_exclude_unset u) ''gender'' = map_option (opt_json JStr) (gender_upd u)"
  "dict_get (model_dump_exclude_unset u) ''height'' = map_option (opt_json JFloat) (height_upd u)"
  "dict_get (model_dump_exclude_unset u) ''weight'' = map_option (opt_json JFloat) (weight_upd u)"
  by (simp_all add: model_dump_exclude_unset_def dict_get_append dict_get_dump_set
      split: option.splits)

lemma get_merged:
  "dict_get (merged_of pid existing u) k =
     (if k = ''id'' then Some (JStr pid)
      else case dict_get (model_dump_exclude_unset u) k of
             Some v \<Rightarrow> Some v
           | None \<Rightarrow> dict_get existing k)"
  by (simp add: merged_of_def dict_get_set dict_get_merge distinct_updates)

lemma get_merged_age:
  "age_upd u = Some (Some a) \<Longrightarrow> dict_get (merged_of pid existing u) ''age'' = Some (JInt a)"
  by (simp add: get_merged get_updates)

lemma PatientUpdate_validate_Inl:
  "PatientUpdate_validate cv body = Inl e \<Longrightarrow> \<exists>errs. e = ValidationError errs \<and> errs \<noteq> []"
  unfolding PatientUpdate_validate_def by (rule PatientUpdate_build_Inl)

lemma PatientUpdate_build_age:
  "a = Inl e \<Longrightarrow> \<exists>errs. PatientUpdate_build n c a g h w = Inl (ValidationError errs)
      \<and> (''age'', e) \<in> set errs"
  by (cases n; cases c; cases g; cases h; cases w) (auto simp: err_of_def)

lemma update_patient_failure_unchanged:
  "fst (update_patient cv patient_id u data) = Inl e \<Longrightarrow>
   snd (update_patient cv patient_id u data) = data"
  by (auto simp: update_patient_def split: option.splits sum.splits)

lemma edit_request_failure_unchanged:
  "fst (edit_request cv patient_id body data) = Inl e \<Longrightarrow>
   snd (edit_request cv patient_id body data) = data"
  by (auto simp: edit_request_def update_patient_failure_unchanged split: sum.splits)

text \<open>
  Claim C7. For a record in the store, an update whose merge with that record fails the
  validation of \<open>Patient\<close> raises the \<open>ValidationError\<close> of the failing fields and leaves
  the store as it was; an age of 120 or more in the payload is such a merge. A body that
  is rejected as a \<open>PatientUpdate\<close>, as one with an age of 0 or less is, never reaches the
  handler. Whatever the failure of the route, the store is the one it started from.
\<close>

theorem update_patient_invalid_unchanged:
  assumes "dict_get data patient_id = Some existing"
  shows "(field_errors cv (merged_of patient_id existing u) \<noteq> [] \<longrightarrow>
           update_patient cv patient_id u data =
             (Inl (ValidationError (field_errors cv (merged_of patient_id existing u))), data))
     \<and> (\<forall>a. age_upd u = Some (Some a) \<and> 120 \<le> a \<longrightarrow>
           (''age'', Less_than) \<in> set (field_errors cv (merged_of patient_id existing u)))
     \<and> (\<forall>e. PatientUpdate_validate cv body = Inl e \<longrightarrow>
           edit_request cv patient_id body data = (Inl e, data)
           \<and> (\<exists>errs. e = ValidationError errs \<and> errs \<noteq> []))
     \<and> (\<forall>a. dict_get body ''age'' = Some (JInt a) \<and> a \<le> 0 \<longrightarrow>
           (\<exists>errs. PatientUpdate_validate cv body = Inl (ValidationError errs)
              \<and> (''age'', Greater_than) \<in> set errs))
     \<and> (\<forall>e. fst (edit_request cv patient_id body data) = Inl e \<longrightarrow>
           snd (edit_request cv patient_id body data) = data)"
proof -
  let ?m = "merged_of patient_id existing u"
  have 1: "field_errors cv ?m \<noteq> [] \<longrightarrow>
      update_patient cv patient_id u data = (Inl (ValidationError (field_errors cv ?m)), data)"
  proof
    assume "field_errors cv ?m \<noteq> []"
    then have "Patient_validate cv ?m = Inl (ValidationError (field_errors cv ?m))"
      by (simp add: Patient_validate_Inl)
    with assms show "update_patient cv patient_id u data =
        (Inl (ValidationError (field_errors cv ?m)), data)"
      by (simp add: update_patient_def)
  qed
  have 2: "\<forall>a. age_upd u = Some (Some a) \<and> 120 \<le> a \<longrightarrow>
      (''age'', Less_than) \<in> set (field_errors cv ?m)"
    by (auto simp: in_field_errors required_def bounds_def get_merged_age)
  have 3: "\<forall>e. PatientUpdate_validate cv body = Inl e \<longrightarrow>
      edit_request cv patient_id body data = (Inl e, data)
      \<and> (\<exists>errs. e = ValidationError errs \<and> errs \<noteq> [])"
    using PatientUpdate_validate_Inl [of cv body] by (simp add: edit_request_def)
  have 4: "\<forall>a. dict_get body ''age'' = Some (JInt a) \<and> a \<le> 0 \<longrightarrow>
      (\<exists>errs. PatientUpdate_validate cv body = Inl (ValidationError errs)
         \<and> (''age'', Greater_than) \<in> set errs)"
  proof (intro allI impI)
    fix a assume "dict_get body ''age'' = Some (JInt a) \<and> a \<le> 0"
    then have "optional body ''age'' (\<lambda>v. bounds 0 None (validate_int cv v)) = Inl Greater_than"
      by (simp add: optional_def bounds_def)
    then show "\<exists>errs. PatientUpdate_validate cv body = Inl (ValidationError errs)
         \<and> (''age'', Greater_than) \<in> set errs"
      unfolding PatientUpdate_validate_def by (rule PatientUpdate_build_age)
  qed
  have 5: "\<forall>e. fst (edit_request cv patient_id body data) = Inl e \<longrightarrow>
      snd (edit_request cv patient_id body data) = data"
    using edit_request_failure_unchanged by blast
  from 1 2 3 4 5 show ?thesis by blast
qed

theorem update_patient_invalid_unchanged_witness:
  "dict_get two_patients ''P001'' = Some ann_stored
   \<and> age_upd age_120 = Some (Some 120) \<and> (120 :: int) \<le> 120
   \<and> update_patient no_lax ''P001'' age_120 two_patients =
       (Inl (ValidationError [(''age'', Less_than)]), two_patients)
   \<and> dict_get [(''age'', JInt 0)] ''age'' = Some (JInt 0) \<and> (0 :: int) \<le> 0
   \<and> edit_request no_lax ''P001'' [(''age'', JInt 0)] two_patients =
       (Inl (ValidationError [(''age'', Greater_than)]), two_patients)"
proof -
  have g: "dict_get two_patients ''P001'' = Some ann_stored"
    by (simp add: two_patients_def)
  note t = update_patient_invalid_unchanged [OF g, of no_lax age_120 "[(''age'', JInt 0)]"]
  have fe: "field_errors no_lax (merged_of ''P001'' ann_stored age_120) = [(''age'', Less_than)]"
    by (simp add: field_errors_def merged_of_def model_dump_exclude_unset_def age_120_def
        ann_stored_def required_def bounds_def err_of_def)
  from t fe have u: "update_patient no_lax ''P001'' age_120 two_patients =
       (Inl (ValidationError [(''age'', Less_than)]), two_patients)"
    by simp
  have pu: "PatientUpdate_validate no_lax [(''age'', JInt 0)] =
      Inl (ValidationError [(''age'', Greater_than)])"
    by (simp add: PatientUpdate_validate_def optional_def bounds_def err_of_def)
  from t pu have e: "edit_request no_lax ''P001'' [(''age'', JInt 0)] two_patients =
       (Inl (ValidationError [(''age'', Greater_than)]), two_patients)"
    by simp
  from g u e show ?thesis by (simp add: age_120_def)
qed











section \<open>Deleting a record\<close>

text \<open>
  Claim C10. When the id is a key of the store, \<^verbatim>\<open>delete_patient\<close> answers with the
  confirmation message and leaves the store without the entry of that id: the other
  entries are kept, in their order, each with the value it had.
\<close>

theorem delete_patient_frame:
  assumes "distinct (dict_keys data)" and "dict_in patient_id data"
  shows "fst (delete_patient patient_id data) = Inr [(''message'', JStr ''patient deleted'')]
    \<and> snd (delete_patient patient_id data) = filter (\<lambda>kv. fst kv \<noteq> patient_id) data
    \<and> dict_get (snd (delete_patient patient_id data)) patient_id = None
    \<and> (\<forall>k. k \<noteq> patient_id \<longrightarrow>
          dict_get (snd (delete_patient patient_id data)) k = dict_get data k)"
  using assms
  by (simp add: delete_patient_def dict_del_filter[symmetric] dict_get_del_other dict_get_del_same)

theorem delete_patient_frame_witness:
  "distinct (dict_keys two_patients) \<and> dict_in ''P001'' two_patients
   \<and> fst (delete_patient ''P001'' two_patients) = Inr [(''message'', JStr ''patient deleted'')]
   \<and> snd (delete_patient ''P001'' two_patients) = [(''P002'', bo_stored)]
   \<and> dict_get (snd (delete_patient ''P001'' two_patients)) ''P001'' = None
   \<and> dict_get (snd (delete_patient ''P001'' two_patients)) ''P002'' = Some bo_stored"
proof -
  have d: "distinct (dict_keys two_patients)"
    by (simp add: two_patients_def dict_keys_def)
  have i: "dict_in ''P001'' two_patients"
    by (simp add: two_patients_def dict_in_def)
  from delete_patient_frame [OF d i] show ?thesis
    using d i by (simp add: two_patients_def)
qed

end
